theory Spec2Isabelle
  imports Complex_Main "HOL-Library.Sublist"
begin

section \<open>Python values, dictionaries and exceptions\<close>

text \<open>
  The repository passes tasks, memory items and metadata around as plain Python
  dictionaries. A dictionary keeps its keys in insertion order, so it is an association
  list here; \<open>dict_get\<close> is \<^verbatim>\<open>d.get(k)\<close> (\<open>None\<close> for a missing key) and
  \<open>dict_get_default\<close> is \<^verbatim>\<open>d.get(k, default)\<close>.
  Floats are modelled as exact reals: no claim below depends on rounding.
\<close>

datatype pyval =
    VNone
  | VBool bool
  | VInt int
  | VFloat real
  | VStr string
  | VList "pyval list"

type_synonym pydict = "(string \<times> pyval) list"

datatype py_error =
    KeyError string
  | IndexError
  | ZeroDivisionError

definition dict_get :: "pydict \<Rightarrow> string \<Rightarrow> pyval option" where
  "dict_get d k = map_of d k"

definition dict_get_default :: "pydict \<Rightarrow> string \<Rightarrow> pyval \<Rightarrow> pyval" where
  "dict_get_default d k dflt = (case map_of d k of None \<Rightarrow> dflt | Some v \<Rightarrow> v)"

text \<open>\<^verbatim>\<open>xs[start:]\<close> for a Python list and an integer \<open>start\<close>: a negative start counts
  from the end, and both ends are clamped to the list.\<close>

definition slice_from :: "'a list \<Rightarrow> int \<Rightarrow> 'a list" where
  "slice_from xs start =
     (let n = int (length xs);
          s = (if start < 0 then max (start + n) 0 else min start n)
      in drop (nat s) xs)"

text \<open>\<^verbatim>\<open>xs.pop(0)\<close>: raises \<open>IndexError\<close> on an empty list, otherwise removes the head.\<close>

definition pop0 :: "'a list \<Rightarrow> py_error + ('a \<times> 'a list)" where
  "pop0 xs = (case xs of [] \<Rightarrow> Inl IndexError | x # rest \<Rightarrow> Inr (x, rest))"

text \<open>\<^verbatim>\<open>a / b\<close> on Python numbers.\<close>

definition truediv :: "int \<Rightarrow> int \<Rightarrow> py_error + real" where
  "truediv a b = (if b = 0 then Inl ZeroDivisionError else Inr (real_of_int a / real_of_int b))"

text \<open>\<^verbatim>\<open>sep.join(parts)\<close> and \<^verbatim>\<open>s.split(c)\<close> for a one-character separator.\<close>

fun join :: "string \<Rightarrow> string list \<Rightarrow> string" where
  "join sep [] = []"
| "join sep [p] = p"
| "join sep (p # q # ps) = p @ sep @ join sep (q # ps)"

fun split_char :: "char \<Rightarrow> string \<Rightarrow> string list" where
  "split_char c [] = [ [] ]"
| "split_char c (x # xs) =
     (if x = c then [] # split_char c xs
      else (case split_char c xs of [] \<Rightarrow> [ [x] ] | w # ws \<Rightarrow> (x # w) # ws))"

definition startswith :: "string \<Rightarrow> string \<Rightarrow> bool" where
  "startswith s p = (take (length p) s = p)"

definition nl :: string where
  "nl = [CHR 0x0A]"

section \<open>llm\_interface.py: the generation service boundary\<close>

text \<open>
  \<^verbatim>\<open>litellm.completion\<close> is the external generation service. It is a parameter of the
  model: given the requests made so far and the current request, it either raises (the
  text of the exception, \<open>Inl\<close>) or yields the text of the first choice (\<open>Inr\<close>).
  The log of requests is the state that \<open>generate\<close> threads through, so that a call of
  the service is visible as a new entry in the log.
\<close>

record llm_config =
  cfg_model :: "string option"
  cfg_max_tokens :: "int option"

record request =
  req_model :: string
  req_system :: string
  req_user :: string
  req_temperature :: real
  req_max_tokens :: int

type_synonym completion = "request list \<Rightarrow> request \<Rightarrow> string + string"

definition completion_request :: "llm_config \<Rightarrow> string \<Rightarrow> string option \<Rightarrow> real \<Rightarrow> request" where
  "completion_request config prompt system_message temperature =
     \<lparr> req_model = (case cfg_model config of None \<Rightarrow> ''gpt-3.5-turbo'' | Some m \<Rightarrow> m),
       req_system = (case system_message of
                       None \<Rightarrow> ''You are a helpful assistant.''
                     | Some s \<Rightarrow> if s = [] then ''You are a helpful assistant.'' else s),
       req_user = prompt,
       req_temperature = temperature,
       req_max_tokens = (case cfg_max_tokens config of None \<Rightarrow> 1000 | Some n \<Rightarrow> n) \<rparr>"

text \<open>\<open>generate\<close> wraps the call in \<^verbatim>\<open>try\<close>/\<^verbatim>\<open>except Exception\<close>: the handler prints the
  exception and returns a text built from it, so every branch returns (\<open>Inr\<close>).\<close>

definition generate ::
  "completion \<Rightarrow> llm_config \<Rightarrow> string \<Rightarrow> string option \<Rightarrow> real \<Rightarrow> request list
     \<Rightarrow> (py_error + string) \<times> request list" where
  "generate completion config prompt system_message temperature calls =
     (let req = completion_request config prompt system_message temperature
      in (case completion calls req of
            Inr content \<Rightarrow> (Inr content, calls @ [req])
          | Inl e \<Rightarrow> (Inr (''Error generating text: '' @ e), calls @ [req])))"

text \<open>The call \<^verbatim>\<open>llm_interface.generate(prompt)\<close> with the default arguments.\<close>

definition generate_default ::
  "completion \<Rightarrow> llm_config \<Rightarrow> string \<Rightarrow> request list \<Rightarrow> (py_error + string) \<times> request list" where
  "generate_default completion config prompt calls =
     generate completion config prompt None (7 / 10) calls"

section \<open>task\_manager.py\<close>

record task_manager =
  tasks :: "pydict list"
  llm_interface :: llm_config

definition task_manager_init :: "llm_config \<Rightarrow> task_manager" where
  "task_manager_init cfg = \<lparr> tasks = [], llm_interface = cfg \<rparr>"

definition add_task :: "task_manager \<Rightarrow> pydict \<Rightarrow> task_manager" where
  "add_task tm task = tm \<lparr> tasks := tasks tm @ [task] \<rparr>"

fun pending_of :: "pydict list \<Rightarrow> pydict list" where
  "pending_of [] = []"
| "pending_of (task # rest) =
     (if dict_get task ''status'' \<noteq> Some (VStr ''completed'')
      then task # pending_of rest else pending_of rest)"

definition get_pending_tasks :: "task_manager \<Rightarrow> pydict list" where
  "get_pending_tasks tm = pending_of (tasks tm)"

fun completed_of :: "pydict list \<Rightarrow> pydict list" where
  "completed_of [] = []"
| "completed_of (task # rest) =
     (if dict_get task ''status'' = Some (VStr ''completed'')
      then task # completed_of rest else completed_of rest)"

definition get_completed_tasks :: "task_manager \<Rightarrow> pydict list" where
  "get_completed_tasks tm = completed_of (tasks tm)"

fun find_task :: "pydict list \<Rightarrow> string \<Rightarrow> pydict option" where
  "find_task [] task_id = None"
| "find_task (task # rest) task_id =
     (if dict_get task ''id'' = Some (VStr task_id) then Some task else find_task rest task_id)"

definition get_task_by_id :: "task_manager \<Rightarrow> string \<Rightarrow> pydict option" where
  "get_task_by_id tm task_id = find_task (tasks tm) task_id"

record progress =
  total :: int
  completed :: int
  pending :: int
  progress_percentage :: real

definition monitor_progress :: "task_manager \<Rightarrow> py_error + progress" where
  "monitor_progress tm =
     (let total = int (length (tasks tm));
          completed = int (length (get_completed_tasks tm));
          pending = total - completed
      in if total > 0
         then (case truediv completed total of
                 Inl e \<Rightarrow> Inl e
               | Inr q \<Rightarrow> Inr \<lparr> total = total, completed = completed, pending = pending,
                              progress_percentage = q * 100 \<rparr>)
         else Inr \<lparr> total = total, completed = completed, pending = pending,
                    progress_percentage = 0 \<rparr>)"

text \<open>The dependencies a task dictionary lists, and whether all of them are completed
  tasks of the manager. The task manager never computes this; it is the yardstick for
  what \<open>get_pending_tasks\<close> returns.\<close>

definition dependencies_of :: "pydict \<Rightarrow> string list" where
  "dependencies_of task =
     (case dict_get task ''dependencies'' of
        Some (VList ds) \<Rightarrow> concat (map (\<lambda>d. case d of VStr s \<Rightarrow> [s] | _ \<Rightarrow> []) ds)
      | _ \<Rightarrow> [])"

definition dependency_completed :: "task_manager \<Rightarrow> string \<Rightarrow> bool" where
  "dependency_completed tm dep =
     (case get_task_by_id tm dep of
        None \<Rightarrow> False
      | Some t \<Rightarrow> dict_get t ''status'' = Some (VStr ''completed''))"

definition dependencies_completed :: "task_manager \<Rightarrow> pydict \<Rightarrow> bool" where
  "dependencies_completed tm task = list_all (dependency_completed tm) (dependencies_of task)"

section \<open>vector\_db.py: the Similarity Store\<close>

text \<open>
  The table \<^verbatim>\<open>(id, content, embedding, metadata, created_at)\<close> lives in PostgreSQL; the
  model keeps its rows in insertion order. \<open>connection = None\<close> is a store without a
  connection, \<open>Some rows\<close> a connected store with these rows. The metadata column holds
  \<^verbatim>\<open>json.dumps(metadata)\<close>; the model keeps the dictionary itself. Failures of the
  database engine (a lost connection, a rejected statement) are outside the model.
  \<open>search\<close> hands the distance computation, the ordering and the limit to the engine
  as SQL text and is not modelled.

  The two embedding services (the Ollama HTTP endpoint and \<^verbatim>\<open>litellm.embedding\<close>) are
  parameters: given the model name and the text they raise (\<open>Inl\<close>) or yield a vector.
\<close>

record row =
  row_content :: pyval
  row_embedding :: "real list"
  row_metadata :: pydict

record vector_db =
  connection :: "row list option"
  embedding_model :: string
  table_name :: string
  dimension :: int

record embed_services =
  ollama_embeddings :: "string \<Rightarrow> pyval \<Rightarrow> string + real list"
  litellm_embedding :: "string \<Rightarrow> pyval \<Rightarrow> string + real list"

definition zero_vector :: "int \<Rightarrow> real list" where
  "zero_vector d = replicate (nat d) 0"

text \<open>
  \<open>get_embedding\<close> makes one external call, chosen by the configured model name: the
  Ollama endpoint for a name that starts with \<open>ollama/\<close> (the part after the slash is
  the model, and \<^verbatim>\<open>split("/")[1]\<close> stands outside the \<^verbatim>\<open>try\<close>), \<^verbatim>\<open>litellm.embedding\<close>
  otherwise. \<open>embedding_call\<close> is that call and its outcome; \<open>get_embedding\<close> is the
  \<^verbatim>\<open>try\<close>/\<^verbatim>\<open>except Exception\<close> around it, whose handler returns the zero vector.
\<close>

definition embedding_call ::
  "embed_services \<Rightarrow> vector_db \<Rightarrow> pyval \<Rightarrow> py_error + (string + real list)" where
  "embedding_call sv db text =
     (if startswith (embedding_model db) ''ollama/''
      then (case split_char (CHR ''/'') (embedding_model db) of
              _ # model_name # _ \<Rightarrow> Inr (ollama_embeddings sv model_name text)
            | _ \<Rightarrow> Inl IndexError)
      else Inr (litellm_embedding sv (embedding_model db) text))"

definition get_embedding :: "embed_services \<Rightarrow> vector_db \<Rightarrow> pyval \<Rightarrow> py_error + real list" where
  "get_embedding sv db text =
     (case embedding_call sv db text of
        Inl e \<Rightarrow> Inl e
      | Inr (Inr embedding) \<Rightarrow> Inr embedding
      | Inr (Inl cause) \<Rightarrow> Inr (zero_vector (dimension db)))"

text \<open>Python truthiness of a value (\<^verbatim>\<open>if not content\<close>).\<close>

fun truthy :: "pyval \<Rightarrow> bool" where
  "truthy VNone = False"
| "truthy (VBool b) = b"
| "truthy (VInt i) = (i \<noteq> 0)"
| "truthy (VFloat x) = (x \<noteq> 0)"
| "truthy (VStr s) = (s \<noteq> [])"
| "truthy (VList xs) = (xs \<noteq> [])"

definition vector_db_add ::
  "embed_services \<Rightarrow> vector_db \<Rightarrow> pydict \<Rightarrow> py_error + (bool \<times> vector_db)" where
  "vector_db_add sv db item =
     (case connection db of
        None \<Rightarrow> Inr (False, db)
      | Some rows \<Rightarrow>
          (let content = dict_get_default item ''content'' (VStr [])
           in if \<not> truthy content then Inr (False, db)
              else (case get_embedding sv db content of
                      Inl e \<Rightarrow> Inl e
                    | Inr embedding \<Rightarrow>
                        (let metadata = filter (\<lambda>(k, v). k \<noteq> ''content'') item
                         in Inr (True,
                                 db \<lparr> connection :=
                                        Some (rows @ [\<lparr> row_content = content,
                                                        row_embedding = embedding,
                                                        row_metadata = metadata \<rparr>]) \<rparr>)))))"

section \<open>memory.py: the Bounded Memory\<close>

record memory =
  short_term_memory :: "pydict list"
  vector_db :: "vector_db option"
  max_short_term_items :: int

definition memory_init :: "vector_db option \<Rightarrow> int \<Rightarrow> memory" where
  "memory_init vdb max_items =
     \<lparr> short_term_memory = [], vector_db = vdb, max_short_term_items = max_items \<rparr>"

definition memory_add :: "embed_services \<Rightarrow> memory \<Rightarrow> pydict \<Rightarrow> bool \<Rightarrow> py_error + memory" where
  "memory_add sv m item is_important =
     (let appended = short_term_memory m @ [item]
      in case (if int (length appended) > max_short_term_items m
               then (case pop0 appended of Inl e \<Rightarrow> Inl e | Inr (oldest, rest) \<Rightarrow> Inr rest)
               else Inr appended) of
           Inl e \<Rightarrow> Inl e
         | Inr buffer \<Rightarrow>
             (case vector_db m of
                Some db \<Rightarrow>
                  if is_important
                  then (case vector_db_add sv db item of
                          Inl e \<Rightarrow> Inl e
                        | Inr (ok, db') \<Rightarrow>
                            Inr (m \<lparr> short_term_memory := buffer, vector_db := Some db' \<rparr>))
                  else Inr (m \<lparr> short_term_memory := buffer \<rparr>)
              | None \<Rightarrow> Inr (m \<lparr> short_term_memory := buffer \<rparr>)))"

text \<open>A sequence of \<open>add\<close> calls, each with its own \<open>is_important\<close> flag.\<close>

fun memory_add_all :: "embed_services \<Rightarrow> memory \<Rightarrow> (pydict \<times> bool) list \<Rightarrow> py_error + memory" where
  "memory_add_all sv m [] = Inr m"
| "memory_add_all sv m ((item, flag) # rest) =
     (case memory_add sv m item flag of
        Inl e \<Rightarrow> Inl e
      | Inr m' \<Rightarrow> memory_add_all sv m' rest)"

definition get_recent :: "memory \<Rightarrow> int \<Rightarrow> pydict list" where
  "get_recent m n = slice_from (short_term_memory m) (- n)"

section \<open>thought\_atom.py: the Hierarchical Context Tree\<close>

text \<open>
  A thought atom owns its children; the \<open>parent\<close> back-reference of the source is the
  position of a node in the tree and is not a field here. \<open>node_dict\<close> is the nested
  dictionary of \<open>to_dict\<close> and \<open>from_dict\<close>, each of the four keys present or absent.
\<close>

datatype thought_atom =
  ThoughtAtom (content: string) (level: int) (metadata: pydict) (children: "thought_atom list")

datatype node_dict =
  NodeDict (d_content: "string option") (d_level: "int option")
           (d_metadata: "pydict option") (d_children: "node_dict list option")

definition thought_atom_init :: "string \<Rightarrow> int \<Rightarrow> pydict option \<Rightarrow> thought_atom" where
  "thought_atom_init c l md =
     ThoughtAtom c l (case md of None \<Rightarrow> [] | Some d \<Rightarrow> if d = [] then [] else d) []"

definition set_level :: "int \<Rightarrow> thought_atom \<Rightarrow> thought_atom" where
  "set_level l a = ThoughtAtom (content a) l (metadata a) (children a)"

definition add_child :: "thought_atom \<Rightarrow> thought_atom \<Rightarrow> thought_atom" where
  "add_child a child =
     ThoughtAtom (content a) (level a) (metadata a) (children a @ [set_level (level a + 1) child])"

fun to_dict :: "thought_atom \<Rightarrow> node_dict" where
  "to_dict (ThoughtAtom c l md ch) = NodeDict (Some c) (Some l) (Some md) (Some (map to_dict ch))"

fun from_dict :: "node_dict \<Rightarrow> py_error + thought_atom"
  and from_dict_children :: "thought_atom \<Rightarrow> node_dict list \<Rightarrow> py_error + thought_atom" where
  "from_dict (NodeDict None l md ch) = Inl (KeyError ''content'')"
| "from_dict (NodeDict (Some c) None md ch) = Inl (KeyError ''level'')"
| "from_dict (NodeDict (Some c) (Some l) md None) = Inr (thought_atom_init c l md)"
| "from_dict (NodeDict (Some c) (Some l) md (Some ch)) =
     from_dict_children (thought_atom_init c l md) ch"
| "from_dict_children atom [] = Inr atom"
| "from_dict_children atom (child_data # rest) =
     (case from_dict child_data of
        Inl e \<Rightarrow> Inl e
      | Inr child \<Rightarrow> from_dict_children (add_child atom child) rest)"

definition summarize_prompt :: "string \<Rightarrow> string" where
  "summarize_prompt combined =
     (let ind = replicate 8 (CHR '' '')
      in nl @ ind @ ''Summarize the following content into a coherent and comprehensive summary:''
         @ nl @ ind @ nl @ ind @ combined @ nl @ ind @ nl @ ind
         @ ''Your summary should capture all key points while being more concise than the original.''
         @ nl @ ind)"

fun summarize ::
    "completion \<Rightarrow> llm_config \<Rightarrow> thought_atom \<Rightarrow> request list \<Rightarrow> (py_error + string) \<times> request list"
  and summarize_children ::
    "completion \<Rightarrow> llm_config \<Rightarrow> thought_atom list \<Rightarrow> request list
       \<Rightarrow> (py_error + string list) \<times> request list" where
  "summarize cp cfg (ThoughtAtom c l md ch) calls =
     (if ch = [] then (Inr c, calls)
      else (case summarize_children cp cfg ch calls of
              (Inl e, calls') \<Rightarrow> (Inl e, calls')
            | (Inr child_summaries, calls') \<Rightarrow>
                generate_default cp cfg (summarize_prompt (join (nl @ nl) child_summaries)) calls'))"
| "summarize_children cp cfg [] calls = (Inr [], calls)"
| "summarize_children cp cfg (child # rest) calls =
     (case summarize cp cfg child calls of
        (Inl e, calls1) \<Rightarrow> (Inl e, calls1)
      | (Inr s, calls1) \<Rightarrow>
          (case summarize_children cp cfg rest calls1 of
             (Inl e, calls2) \<Rightarrow> (Inl e, calls2)
           | (Inr ss, calls2) \<Rightarrow> (Inr (s # ss), calls2)))"

text \<open>The invariant of the data model: every child is one level below its parent.\<close>

fun levels_consistent :: "thought_atom \<Rightarrow> bool" where
  "levels_consistent (ThoughtAtom c l md ch) =
     list_all (\<lambda>x. level x = l + 1 \<and> levels_consistent x) ch"

text \<open>
  \<open>ThoughtTree.add_thought\<close>: a new node is created one level below its parent and
  attached with \<open>add_child\<close>. The parent is an object of the tree in the source; here it
  is the path of child indices that leads to it from the root (the empty path is the
  root, the default parent), and a path that leads nowhere leaves the tree as it is.
\<close>

fun add_thought :: "nat list \<Rightarrow> string \<Rightarrow> pydict option \<Rightarrow> thought_atom \<Rightarrow> thought_atom" where
  "add_thought [] c md (ThoughtAtom pc pl pmd pch) =
     add_child (ThoughtAtom pc pl pmd pch) (thought_atom_init c (pl + 1) md)"
| "add_thought (i # path) c md (ThoughtAtom pc pl pmd pch) =
     (if i < length pch
      then ThoughtAtom pc pl pmd (pch[i := add_thought path c md (pch ! i)])
      else ThoughtAtom pc pl pmd pch)"

text \<open>What \<open>from_dict\<close> makes of the levels: it keeps the level the dictionary gives
  for the root, and \<open>add_child\<close> overwrites the level of every child with the level of its
  parent plus one, after the child's own subtree has been built.\<close>

fun relevel :: "thought_atom \<Rightarrow> thought_atom" where
  "relevel (ThoughtAtom c l md ch) =
     ThoughtAtom c l md (map (\<lambda>x. set_level (l + 1) (relevel x)) ch)"

section \<open>Concrete inputs\<close>

definition demo_config :: llm_config where
  "demo_config = \<lparr> cfg_model = None, cfg_max_tokens = None \<rparr>"

definition failing_completion :: completion where
  "failing_completion calls req = Inl ''connection refused''"

definition failing_embeddings :: embed_services where
  "failing_embeddings =
     \<lparr> ollama_embeddings = (\<lambda>model_name text. Inl ''connection refused''),
       litellm_embedding = (\<lambda>model_name text. Inl ''connection refused'') \<rparr>"

definition ollama_down_embeddings :: embed_services where
  "ollama_down_embeddings =
     \<lparr> ollama_embeddings = (\<lambda>model_name text. Inl ''connection refused''),
       litellm_embedding = (\<lambda>model_name text. Inr [1]) \<rparr>"

definition demo_db :: "row list \<Rightarrow> vector_db" where
  "demo_db rows =
     \<lparr> connection = Some rows, embedding_model = ''ollama/embeddings'',
       table_name = ''novel_knowledge'', dimension = 1 \<rparr>"

definition demo_row :: "string \<Rightarrow> real \<Rightarrow> row" where
  "demo_row text x = \<lparr> row_content = VStr text, row_embedding = [x], row_metadata = [] \<rparr>"

definition demo_item :: "string \<Rightarrow> pydict" where
  "demo_item text = [(''type'', VStr ''note''), (''content'', VStr text)]"

definition demo_task :: "string \<Rightarrow> string \<Rightarrow> string list \<Rightarrow> pydict" where
  "demo_task task_id status deps =
     [(''id'', VStr task_id), (''status'', VStr status), (''dependencies'', VList (map VStr deps))]"

definition demo_tasks :: "pydict list \<Rightarrow> task_manager" where
  "demo_tasks ts = \<lparr> tasks = ts, llm_interface = demo_config \<rparr>"

section \<open>Helper lemmas\<close>

lemma completed_of_length: "length (completed_of ts) \<le> length ts"
  by (induction ts) auto

lemma pending_of_filter:
  "pending_of ts = filter (\<lambda>t. dict_get t ''status'' \<noteq> Some (VStr ''completed'')) ts"
  by (induction ts) auto

lemma pending_of_append: "pending_of (ts @ us) = pending_of ts @ pending_of us"
  by (simp add: pending_of_filter)

lemma pending_of_all_completed:
  "\<forall>e \<in> set ts. dict_get e ''status'' = Some (VStr ''completed'') \<Longrightarrow> pending_of ts = []"
  by (induction ts) auto

lemma find_task_append:
  "find_task (ts @ us) i = (case find_task ts i of Some t \<Rightarrow> Some t | None \<Rightarrow> find_task us i)"
  by (induction ts) auto

lemma get_recent_positive:
  assumes "0 < n"
  shows "get_recent m n = drop (length (short_term_memory m) - nat n) (short_term_memory m)"
proof -
  have "nat (max (- n + int (length (short_term_memory m))) 0)
          = length (short_term_memory m) - nat n"
    using assms by linarith
  then show ?thesis using assms by (simp add: get_recent_def slice_from_def Let_def)
qed

lemma get_recent_zero_all: "get_recent m 0 = short_term_memory m"
  by (simp add: get_recent_def slice_from_def)

lemma split_char_nonempty: "split_char c s \<noteq> []"
  by (induction s) (auto split: list.splits)

lemma split_char_ollama:
  assumes "startswith s ''ollama/''"
  shows "\<exists>a b rest. split_char (CHR ''/'') s = a # b # rest"
proof -
  from assms obtain t where s: "s = ''ollama/'' @ t"
    unfolding startswith_def by (metis append_take_drop_id)
  obtain w ws where "split_char (CHR ''/'') t = w # ws"
    using split_char_nonempty by (cases "split_char (CHR ''/'') t") auto
  then show ?thesis unfolding s by simp
qed

lemma embedding_call_total: "\<exists>r. embedding_call sv db text = Inr r"
proof (cases "startswith (embedding_model db) ''ollama/''")
  case True
  from split_char_ollama [OF True] obtain a b rest
    where "split_char (CHR ''/'') (embedding_model db) = a # b # rest" by blast
  with True show ?thesis by (simp add: embedding_call_def)
next
  case False
  then show ?thesis by (simp add: embedding_call_def)
qed

lemma get_embedding_total: "\<exists>e. get_embedding sv db text = Inr e"
proof -
  obtain r where "embedding_call sv db text = Inr r"
    using embedding_call_total by blast
  then show ?thesis by (cases r) (simp_all add: get_embedding_def)
qed

lemma get_embedding_failed:
  "embedding_call sv db text = Inr (Inl cause)
     \<Longrightarrow> get_embedding sv db text = Inr (zero_vector (dimension db))"
  by (simp add: get_embedding_def)

lemma vector_db_add_total: "\<exists>ok db'. vector_db_add sv db item = Inr (ok, db')"
  using get_embedding_total [of sv db "dict_get_default item ''content'' (VStr [])"]
  by (auto simp: vector_db_add_def Let_def split: option.splits)

lemma memory_add_buffer:
  "\<exists>m'. memory_add sv m item flag = Inr m'
     \<and> short_term_memory m' =
         (if int (length (short_term_memory m)) + 1 > max_short_term_items m
          then tl (short_term_memory m @ [item]) else short_term_memory m @ [item])
     \<and> max_short_term_items m' = max_short_term_items m"
proof (cases "flag \<and> vector_db m \<noteq> None")
  case True
  then obtain db where db: "vector_db m = Some db" by auto
  obtain ok db' where "vector_db_add sv db item = Inr (ok, db')"
    using vector_db_add_total by blast
  with True db show ?thesis
    by (cases "short_term_memory m") (auto simp: memory_add_def pop0_def Let_def)
next
  case False
  then show ?thesis
    by (cases "short_term_memory m") (auto simp: memory_add_def pop0_def Let_def split: option.splits)
qed

lemma memory_add_all_buffer:
  "0 \<le> max_short_term_items m \<Longrightarrow> length (short_term_memory m) \<le> nat (max_short_term_items m) \<Longrightarrow>
   \<exists>m'. memory_add_all sv m xs = Inr m'
     \<and> short_term_memory m' =
         drop (length (short_term_memory m) + length xs - nat (max_short_term_items m))
              (short_term_memory m @ map fst xs)
     \<and> max_short_term_items m' = max_short_term_items m"
proof (induction xs arbitrary: m)
  case Nil
  then show ?case by simp
next
  case (Cons x xs)
  obtain item flag where x: "x = (item, flag)" by (cases x)
  from memory_add_buffer [of sv m item flag] obtain m1 where
    m1: "memory_add sv m item flag = Inr m1"
    and b1: "short_term_memory m1 =
         (if int (length (short_term_memory m)) + 1 > max_short_term_items m
          then tl (short_term_memory m @ [item]) else short_term_memory m @ [item])"
    and c1: "max_short_term_items m1 = max_short_term_items m" by blast
  have len1: "length (short_term_memory m1) \<le> nat (max_short_term_items m1)"
    using Cons.prems b1 c1 by (auto split: if_splits)
  from Cons.IH [of m1] Cons.prems c1 len1 obtain m' where
    r: "memory_add_all sv m1 xs = Inr m'"
    and b: "short_term_memory m' =
         drop (length (short_term_memory m1) + length xs - nat (max_short_term_items m1))
              (short_term_memory m1 @ map fst xs)"
    and c: "max_short_term_items m' = max_short_term_items m1" by auto
  show ?case
  proof (cases "int (length (short_term_memory m)) + 1 > max_short_term_items m")
    case True
    define B where "B = short_term_memory m"
    define n where "n = nat (max_short_term_items m)"
    from True Cons.prems have full: "length B = n" unfolding B_def n_def by linarith
    from True b1 have s1: "short_term_memory m1 = tl (B @ [item])" by (simp add: B_def)
    have app: "short_term_memory m1 @ map fst xs = drop 1 (B @ item # map fst xs)"
      unfolding s1 by (cases B) auto
    have len: "length (short_term_memory m1) = n"
      unfolding s1 using full by simp
    have "short_term_memory m' = drop (n + length xs - n) (drop 1 (B @ item # map fst xs))"
      using b unfolding c1 len app n_def by simp
    also have "\<dots> = drop (Suc (length xs)) (B @ item # map fst xs)"
      by (simp only: drop_drop) simp
    also have "\<dots> = drop (length B + length (x # xs) - n) (B @ map fst (x # xs))"
      using full x by simp
    finally have "short_term_memory m' =
        drop (length (short_term_memory m) + length (x # xs) - nat (max_short_term_items m))
             (short_term_memory m @ map fst (x # xs))"
      unfolding B_def n_def .
    moreover have "memory_add_all sv m (x # xs) = Inr m'" using m1 r x by simp
    moreover have "max_short_term_items m' = max_short_term_items m" using c c1 by simp
    ultimately show ?thesis by blast
  next
    case False
    with b1 have s1: "short_term_memory m1 = short_term_memory m @ [item]" by simp
    show ?thesis using m1 r b c c1 x unfolding s1 by simp
  qed
qed

lemma from_dict_children_relevel:
  "(\<And>x. x \<in> set ch \<Longrightarrow> from_dict (to_dict x) = Inr (relevel x)) \<Longrightarrow>
   from_dict_children atom (map to_dict ch) =
     Inr (ThoughtAtom (content atom) (level atom) (metadata atom)
            (children atom @ map (\<lambda>x. set_level (level atom + 1) (relevel x)) ch))"
proof (induction ch arbitrary: atom)
  case Nil
  then show ?case by simp
next
  case (Cons x xs)
  have "from_dict (to_dict x) = Inr (relevel x)" using Cons.prems by simp
  moreover have "from_dict_children (add_child atom (relevel x)) (map to_dict xs) =
     Inr (ThoughtAtom (content (add_child atom (relevel x))) (level (add_child atom (relevel x)))
            (metadata (add_child atom (relevel x)))
            (children (add_child atom (relevel x))
               @ map (\<lambda>y. set_level (level (add_child atom (relevel x)) + 1) (relevel y)) xs))"
    using Cons.IH [of "add_child atom (relevel x)"] Cons.prems by simp
  ultimately show ?case by (simp add: add_child_def)
qed

lemma from_dict_to_dict_relevel: "from_dict (to_dict t) = Inr (relevel t)"
proof (induction t)
  case (ThoughtAtom c l md ch)
  have "from_dict_children (thought_atom_init c l (Some md)) (map to_dict ch) =
     Inr (ThoughtAtom c l md (map (\<lambda>x. set_level (l + 1) (relevel x)) ch))"
    using from_dict_children_relevel [of ch "thought_atom_init c l (Some md)"] ThoughtAtom.IH
    by (simp add: thought_atom_init_def)
  then show ?case by simp
qed

lemma relevel_consistent: "levels_consistent t \<Longrightarrow> relevel t = t"
proof (induction t)
  case (ThoughtAtom c l md ch)
  have "map (\<lambda>x. set_level (l + 1) (relevel x)) ch = ch"
  proof (rule map_idI)
    fix x assume x: "x \<in> set ch"
    with ThoughtAtom.prems have "level x = l + 1" "levels_consistent x"
      by (auto simp: list_all_iff)
    with ThoughtAtom.IH x have "relevel x = x" by simp
    with \<open>level x = l + 1\<close> show "set_level (l + 1) (relevel x) = x"
      by (cases x) (simp add: set_level_def)
  qed
  then show ?case by simp
qed

lemma level_add_thought: "level (add_thought path c md t) = level t"
  by (cases t; cases path) (simp_all add: add_child_def)

lemma add_thought_levels_consistent:
  "levels_consistent t \<Longrightarrow> levels_consistent (add_thought path c md t)"
proof (induction path arbitrary: t)
  case Nil
  then show ?case
    by (cases t) (simp add: add_child_def set_level_def thought_atom_init_def)
next
  case (Cons i path)
  obtain pc pl pmd pch where t: "t = ThoughtAtom pc pl pmd pch" by (cases t)
  show ?case
  proof (cases "i < length pch")
    case True
    from Cons.prems t have all: "\<forall>x \<in> set pch. level x = pl + 1 \<and> levels_consistent x"
      by (simp add: list_all_iff)
    with True have old: "level (pch ! i) = pl + 1" "levels_consistent (pch ! i)" by simp_all
    have new: "level (add_thought path c md (pch ! i)) = pl + 1
               \<and> levels_consistent (add_thought path c md (pch ! i))"
      using old Cons.IH by (simp add: level_add_thought)
    have "\<forall>x \<in> set (pch[i := add_thought path c md (pch ! i)]).
            level x = pl + 1 \<and> levels_consistent x"
      using all new set_update_subset_insert [of pch i "add_thought path c md (pch ! i)"]
      by blast
    with True t show ?thesis by (simp add: list_all_iff)
  next
    case False
    with Cons.prems t show ?thesis by simp
  qed
qed

lemma thought_tree_root_consistent: "levels_consistent (thought_atom_init c 0 None)"
  by (simp add: thought_atom_init_def)

lemma summarize_calls_service:
  "(\<exists>s extra. summarize cp cfg a calls = (Inr s, calls @ extra)
       \<and> (children a \<noteq> [] \<longrightarrow> extra \<noteq> []))"
  "(\<exists>ss extra. summarize_children cp cfg as calls = (Inr ss, calls @ extra))"
proof (induction cp cfg a calls and cp cfg as calls rule: summarize_summarize_children.induct)
  case (1 cp cfg c l md ch calls)
  show ?case
  proof (cases "ch = []")
    case True
    then show ?thesis by simp
  next
    case False
    from "1.IH" False obtain ss extra where
      sc: "summarize_children cp cfg ch calls = (Inr ss, calls @ extra)" by blast
    obtain s where g: "generate_default cp cfg (summarize_prompt (join (nl @ nl) ss)) (calls @ extra)
        = (Inr s, (calls @ extra) @
             [completion_request cfg (summarize_prompt (join (nl @ nl) ss)) None (7 / 10)])"
      by (cases "cp (calls @ extra)
            (completion_request cfg (summarize_prompt (join (nl @ nl) ss)) None (7 / 10))")
         (simp_all add: generate_default_def generate_def Let_def)
    from False sc g show ?thesis by simp
  qed
next
  case (2 cp cfg calls)
  show ?case by simp
next
  case (3 cp cfg child rest calls)
  from "3.IH"(1) obtain s extra1 where
    a: "summarize cp cfg child calls = (Inr s, calls @ extra1)" by blast
  from "3.IH"(2) [OF a [symmetric]] obtain ss extra2 where
    b: "summarize_children cp cfg rest (calls @ extra1) = (Inr ss, (calls @ extra1) @ extra2)"
    by auto
  from a b show ?case by simp
qed

section \<open>The claims\<close>

text \<open>
  C1 (amended). \<open>get_pending_tasks\<close> is the only operation of the task manager that offers
  tasks to run. It returns every task whose status is not \<open>completed\<close>, in insertion
  order, whatever its dependencies are and however often it has been returned before:
  a task that is not completed is in the result, between the pending tasks submitted
  before it and those submitted after it, the result is a subsequence of the task list,
  and when all earlier tasks are completed it is the first task returned.
\<close>

theorem get_pending_tasks_insertion_order:
  assumes "tasks tm = earlier @ t # later"
      and "dict_get t ''status'' \<noteq> Some (VStr ''completed'')"
  shows "get_pending_tasks tm = pending_of earlier @ t # pending_of later
         \<and> subseq (get_pending_tasks tm) (tasks tm)
         \<and> ((\<forall>e \<in> set earlier. dict_get e ''status'' = Some (VStr ''completed''))
              \<longrightarrow> get_pending_tasks tm = t # pending_of later)"
proof -
  have a: "get_pending_tasks tm = pending_of earlier @ t # pending_of later"
    using assms by (simp add: get_pending_tasks_def pending_of_append)
  have b: "subseq (get_pending_tasks tm) (tasks tm)"
    by (simp add: get_pending_tasks_def pending_of_filter)
  show ?thesis using a b by (simp add: pending_of_all_completed)
qed

theorem get_pending_tasks_insertion_order_witness:
  "tasks (demo_tasks [demo_task ''A'' ''completed'' [], demo_task ''B'' ''pending'' [''A''],
                      demo_task ''C'' ''pending'' [''B'']])
     = [demo_task ''A'' ''completed'' []] @ demo_task ''B'' ''pending'' [''A'']
         # [demo_task ''C'' ''pending'' [''B'']]
   \<and> dict_get (demo_task ''B'' ''pending'' [''A'']) ''status'' \<noteq> Some (VStr ''completed'')
   \<and> get_pending_tasks (demo_tasks [demo_task ''A'' ''completed'' [],
                                    demo_task ''B'' ''pending'' [''A''],
                                    demo_task ''C'' ''pending'' [''B'']])
     = [demo_task ''B'' ''pending'' [''A''], demo_task ''C'' ''pending'' [''B'']]"
  using get_pending_tasks_insertion_order
    [of "demo_tasks [demo_task ''A'' ''completed'' [], demo_task ''B'' ''pending'' [''A''],
                     demo_task ''C'' ''pending'' [''B'']]"
        "[demo_task ''A'' ''completed'' []]" "demo_task ''B'' ''pending'' [''A'']"
        "[demo_task ''C'' ''pending'' [''B'']]"]
  by (simp add: demo_tasks_def demo_task_def dict_get_def)

text \<open>
  C1 as stated fails: with \<open>A\<close> pending and \<open>B\<close> depending on \<open>A\<close>, the task \<open>B\<close> is
  returned although its dependency is not completed.
\<close>

theorem get_pending_tasks_ignores_dependencies:
  "get_pending_tasks (demo_tasks [demo_task ''A'' ''pending'' [],
                                  demo_task ''B'' ''pending'' [''A'']])
     = [demo_task ''A'' ''pending'' [], demo_task ''B'' ''pending'' [''A'']]
   \<and> \<not> dependencies_completed
         (demo_tasks [demo_task ''A'' ''pending'' [], demo_task ''B'' ''pending'' [''A'']])
         (demo_task ''B'' ''pending'' [''A''])"
  by (simp add: get_pending_tasks_def demo_tasks_def demo_task_def dict_get_def
      dependencies_completed_def dependencies_of_def dependency_completed_def get_task_by_id_def)

text \<open>
  C2 (amended). When the underlying completion call fails with a cause, \<open>generate\<close> does
  not raise: it returns the text \<open>Error generating text: \<close> followed by the cause, after
  one call of the service.
\<close>

theorem generate_failure_returns_text:
  assumes "completion calls (completion_request config prompt system_message temperature)
             = Inl cause"
  shows "generate completion config prompt system_message temperature calls
           = (Inr (''Error generating text: '' @ cause),
              calls @ [completion_request config prompt system_message temperature])"
  using assms by (simp add: generate_def Let_def)

theorem generate_failure_returns_text_witness:
  "failing_completion [] (completion_request demo_config ''Write a scene'' None (7 / 10))
     = Inl ''connection refused''
   \<and> fst (generate failing_completion demo_config ''Write a scene'' None (7 / 10) [])
     = Inr ''Error generating text: connection refused''"
  using generate_failure_returns_text
    [of failing_completion "[]" demo_config "''Write a scene''" None "7 / 10"
        "''connection refused''"]
  by (simp add: failing_completion_def)

text \<open>
  C2 as stated fails: with a failing service, \<open>generate\<close> returns a manufactured text
  (\<open>Inr\<close>) and no error (\<open>Inl\<close>).
\<close>

theorem generate_failure_is_not_an_error:
  "generate_default failing_completion demo_config ''Write a scene'' []
     = (Inr ''Error generating text: connection refused'',
        [completion_request demo_config ''Write a scene'' None (7 / 10)])"
  by (simp add: generate_default_def generate_def failing_completion_def Let_def)

text \<open>
  C3 (amended). When the external embedding call that \<open>add\<close> makes fails, \<open>add\<close> on a
  connected store with a non-empty content does not fail: it stores the record with
  the zero vector of the store's dimension as its embedding and returns \<open>True\<close>.
\<close>

theorem vector_db_add_zero_vector:
  assumes "connection db = Some rows"
      and "truthy (dict_get_default item ''content'' (VStr []))"
      and "embedding_call sv db (dict_get_default item ''content'' (VStr [])) = Inr (Inl cause)"
  shows "vector_db_add sv db item =
           Inr (True, db \<lparr> connection :=
                  Some (rows @ [\<lparr> row_content = dict_get_default item ''content'' (VStr []),
                                  row_embedding = zero_vector (dimension db),
                                  row_metadata = filter (\<lambda>(k, v). k \<noteq> ''content'') item \<rparr>]) \<rparr>)"
  using assms(1,2) get_embedding_failed [OF assms(3)]
  by (simp add: vector_db_add_def Let_def)

theorem vector_db_add_zero_vector_witness:
  "connection (demo_db []) = Some []
   \<and> truthy (dict_get_default (demo_item ''hello'') ''content'' (VStr []))
   \<and> embedding_call ollama_down_embeddings (demo_db [])
        (dict_get_default (demo_item ''hello'') ''content'' (VStr []))
       = Inr (Inl ''connection refused'')
   \<and> vector_db_add ollama_down_embeddings (demo_db []) (demo_item ''hello'') =
       Inr (True, demo_db [\<lparr> row_content = VStr ''hello'', row_embedding = [0],
                              row_metadata = [(''type'', VStr ''note'')] \<rparr>])"
proof -
  have c: "connection (demo_db []) = Some []" by (simp add: demo_db_def)
  have t: "truthy (dict_get_default (demo_item ''hello'') ''content'' (VStr []))"
    by (simp add: demo_item_def dict_get_default_def)
  have e: "embedding_call ollama_down_embeddings (demo_db [])
        (dict_get_default (demo_item ''hello'') ''content'' (VStr []))
       = Inr (Inl ''connection refused'')"
    by (simp add: embedding_call_def demo_db_def startswith_def ollama_down_embeddings_def)
  show ?thesis
    using c t e vector_db_add_zero_vector [OF c t e]
    by (simp add: demo_db_def demo_item_def dict_get_default_def zero_vector_def)
qed

text \<open>
  C3 as stated fails: with both embedding services failing, \<open>add\<close> succeeds and the stored
  embedding is the zero vector.
\<close>

theorem vector_db_add_substitutes_zero_vector:
  "vector_db_add failing_embeddings (demo_db [demo_row ''old'' 1]) (demo_item ''hello'') =
     Inr (True, demo_db [demo_row ''old'' 1,
                         \<lparr> row_content = VStr ''hello'', row_embedding = [0],
                           row_metadata = [(''type'', VStr ''note'')] \<rparr>])"
  by (simp add: vector_db_add_def demo_db_def demo_item_def demo_row_def dict_get_default_def
      failing_embeddings_def get_embedding_def embedding_call_def startswith_def
      zero_vector_def Let_def)

text \<open>
  C4. Starting from an empty Bounded Memory of capacity \<open>N \<ge> 0\<close>, any sequence of \<open>add\<close>
  calls succeeds and leaves in the buffer the last \<open>min(count, N)\<close> items added, in
  insertion order: what has been evicted are the oldest items. The \<open>is_important\<close> flags
  and the long-term store are arbitrary.
\<close>

theorem memory_add_fifo:
  assumes "0 \<le> N"
  shows "\<exists>m'. memory_add_all sv (memory_init vdb N) xs = Inr m'
           \<and> short_term_memory m' = drop (length xs - nat N) (map fst xs)
           \<and> length (short_term_memory m') = min (length xs) (nat N)"
  using memory_add_all_buffer [of "memory_init vdb N" sv xs] assms
  by (auto simp: memory_init_def)

theorem memory_add_fifo_witness:
  "(0::int) \<le> 3
   \<and> (\<exists>m'. memory_add_all failing_embeddings (memory_init (Some (demo_db [])) 3)
              [(demo_item ''1'', False), (demo_item ''2'', True), (demo_item ''3'', False),
               (demo_item ''4'', True), (demo_item ''5'', False)] = Inr m'
         \<and> short_term_memory m' = [demo_item ''3'', demo_item ''4'', demo_item ''5'']
         \<and> length (short_term_memory m') = 3)"
  using memory_add_fifo [of 3 failing_embeddings "Some (demo_db [])"
      "[(demo_item ''1'', False), (demo_item ''2'', True), (demo_item ''3'', False),
        (demo_item ''4'', True), (demo_item ''5'', False)]"]
  by (simp add: numeral_3_eq_3 del: memory_add_all.simps)

text \<open>
  C5. For every finite context tree (each child one level below its parent, as the data
  model has it and as \<open>add_thought\<close> builds it), \<open>from_dict (to_dict t)\<close> succeeds and
  gives back \<open>t\<close>: same contents, levels, metadata and child order at every node.
\<close>

theorem round_trip_consistent:
  "levels_consistent t \<Longrightarrow> from_dict (to_dict t) = Inr t"
  using from_dict_to_dict_relevel [of t] relevel_consistent [of t] by simp

theorem round_trip_consistent_witness:
  "levels_consistent
     (ThoughtAtom ''a'' 0 [] [ThoughtAtom ''b'' 1 [(''k'', VInt 1)] [ThoughtAtom ''c'' 2 [] []],
                              ThoughtAtom ''d'' 1 [] []])
   \<and> from_dict (to_dict
       (ThoughtAtom ''a'' 0 [] [ThoughtAtom ''b'' 1 [(''k'', VInt 1)] [ThoughtAtom ''c'' 2 [] []],
                                ThoughtAtom ''d'' 1 [] []]))
     = Inr (ThoughtAtom ''a'' 0 [] [ThoughtAtom ''b'' 1 [(''k'', VInt 1)] [ThoughtAtom ''c'' 2 [] []],
                                    ThoughtAtom ''d'' 1 [] []])"
  using round_trip_consistent
    [of "ThoughtAtom ''a'' 0 [] [ThoughtAtom ''b'' 1 [(''k'', VInt 1)] [ThoughtAtom ''c'' 2 [] []],
                                 ThoughtAtom ''d'' 1 [] []]"]
  by simp

text \<open>
  C6. For a node with no children, \<open>summarize\<close> returns the node's content unchanged, and
  the log of calls of the generation service is the one it started with.
\<close>

theorem summarize_leaf:
  "children a = [] \<Longrightarrow> summarize cp cfg a calls = (Inr (content a), calls)"
  by (cases a) simp

theorem summarize_leaf_witness:
  "children (ThoughtAtom ''Chapter one'' 2 [] []) = []
   \<and> summarize failing_completion demo_config (ThoughtAtom ''Chapter one'' 2 [] []) []
     = (Inr ''Chapter one'', [])"
  using summarize_leaf [of "ThoughtAtom ''Chapter one'' 2 [] []" failing_completion demo_config "[]"]
  by simp

text \<open>
  C8 fails on the code at \<open>n = 0\<close>: \<^verbatim>\<open>short_term_memory[-0:]\<close> is the whole buffer, so
  \<open>get_recent 0\<close> on a buffer of three items returns the three items, not none.
\<close>

theorem get_recent_zero_returns_all:
  "get_recent \<lparr> short_term_memory = [demo_item ''1'', demo_item ''2'', demo_item ''3''],
                vector_db = None, max_short_term_items = 3 \<rparr> 0
     = [demo_item ''1'', demo_item ''2'', demo_item ''3'']"
  by (simp add: get_recent_def slice_from_def)

text \<open>
  C9 (amended). \<open>add_task\<close> does not look at ids. Submitting a task whose id is already
  present succeeds: the task is appended at the end of the task list, which grows by
  one, and \<open>get_task_by_id\<close> still returns the task that had this id before.
\<close>

theorem add_task_duplicate_appends:
  assumes "get_task_by_id tm task_id = Some old"
      and "dict_get task ''id'' = Some (VStr task_id)"
  shows "tasks (add_task tm task) = tasks tm @ [task]
         \<and> length (tasks (add_task tm task)) = Suc (length (tasks tm))
         \<and> get_task_by_id (add_task tm task) task_id = Some old"
  using assms by (simp add: add_task_def get_task_by_id_def find_task_append)

theorem add_task_duplicate_appends_witness:
  "get_task_by_id (demo_tasks [demo_task ''A'' ''pending'' []]) ''A''
     = Some (demo_task ''A'' ''pending'' [])
   \<and> dict_get (demo_task ''A'' ''completed'' []) ''id'' = Some (VStr ''A'')
   \<and> length (tasks (add_task (demo_tasks [demo_task ''A'' ''pending'' []])
                            (demo_task ''A'' ''completed'' []))) = 2
   \<and> get_task_by_id (add_task (demo_tasks [demo_task ''A'' ''pending'' []])
                              (demo_task ''A'' ''completed'' [])) ''A''
     = Some (demo_task ''A'' ''pending'' [])"
  using add_task_duplicate_appends
    [of "demo_tasks [demo_task ''A'' ''pending'' []]" "''A''" "demo_task ''A'' ''pending'' []"
        "demo_task ''A'' ''completed'' []"]
  by (simp add: demo_tasks_def demo_task_def get_task_by_id_def dict_get_def)

text \<open>
  C9 as stated fails: submitting a second task with the id \<open>A\<close> changes the task list,
  which then holds two tasks with this id.
\<close>

theorem add_task_accepts_duplicate:
  "tasks (add_task (demo_tasks [demo_task ''A'' ''pending'' []]) (demo_task ''A'' ''pending'' []))
     = [demo_task ''A'' ''pending'' [], demo_task ''A'' ''pending'' []]
   \<and> tasks (add_task (demo_tasks [demo_task ''A'' ''pending'' []]) (demo_task ''A'' ''pending'' []))
     \<noteq> tasks (demo_tasks [demo_task ''A'' ''pending'' []])"
  by (simp add: add_task_def demo_tasks_def)

text \<open>
  C10. \<open>monitor_progress\<close> never raises: for every task list it returns a snapshot with
  \<open>total\<close> the number of tasks, \<open>completed\<close> the number of completed tasks and
  \<open>pending = total - completed\<close>, which is not negative; for the empty task list the
  \<open>progress_percentage\<close> is 0, and no division takes place.
\<close>

theorem monitor_progress_total:
  "\<exists>p. monitor_progress tm = Inr p
       \<and> total p = int (length (tasks tm))
       \<and> completed p = int (length (get_completed_tasks tm))
       \<and> pending p = total p - completed p
       \<and> 0 \<le> pending p
       \<and> (tasks tm = [] \<longrightarrow> progress_percentage p = 0)"
  using completed_of_length [of "tasks tm"]
  by (cases "tasks tm")
     (auto simp: monitor_progress_def truediv_def get_completed_tasks_def Let_def)

theorem monitor_progress_total_witness:
  "tasks (demo_tasks []) = []
   \<and> (\<exists>p. monitor_progress (demo_tasks []) = Inr p
         \<and> total p = 0 \<and> completed p = 0 \<and> pending p = 0 \<and> progress_percentage p = 0)"
  using monitor_progress_total [of "demo_tasks []"]
  by (auto simp: get_completed_tasks_def demo_tasks_def)

end
